theory Spec2Isabelle
  imports Complex_Main
begin

section \<open>JavaScript values read by the client\<close>

text \<open>
  An optional numeric field of a parsed JSON object as the TypeScript code reads it:
  absent (\<open>undefined\<close>), \<open>null\<close>, or a number. \<open>NaN\<close> is the result of
  arithmetic on \<open>undefined\<close>. Numbers are modelled as reals: rounding of doubles and
  the infinities are not modelled.
\<close>

datatype jsnum = Undefined | Null | Num real | NaN

text \<open>Truthiness, as used by \<open>if (x)\<close>, \<open>x ? a : b\<close>, \<open>x || y\<close> and \<open>x && y\<close>.\<close>

fun truthy :: "jsnum \<Rightarrow> bool" where
  "truthy (Num x) = (x \<noteq> 0)"
| "truthy Undefined = False"
| "truthy Null = False"
| "truthy NaN = False"

text \<open>\<open>ToNumber\<close>: the coercion applied to the operands of \<open>/\<close>.\<close>

fun toNumber :: "jsnum \<Rightarrow> jsnum" where
  "toNumber Undefined = NaN"
| "toNumber Null = Num 0"
| "toNumber (Num x) = Num x"
| "toNumber NaN = NaN"

text \<open>\<open>v / c\<close> for a non-zero numeric literal \<open>c\<close> (2, 1000 and 4.184e15 in the source).\<close>

definition js_div :: "jsnum \<Rightarrow> real \<Rightarrow> jsnum" where
  "js_div v c = (case toNumber v of Num x \<Rightarrow> Num (x / c) | _ \<Rightarrow> NaN)"

text \<open>\<open>a || b\<close> on optional numbers.\<close>

definition js_or :: "jsnum \<Rightarrow> jsnum \<Rightarrow> jsnum" where
  "js_or a b = (if truthy a then a else b)"

text \<open>An optional string field: absent, \<open>null\<close> or a string; the empty string is falsy.\<close>

datatype jsstr = SUndefined | SNull | Str string

fun truthy_str :: "jsstr \<Rightarrow> bool" where
  "truthy_str (Str s) = (s \<noteq> [])"
| "truthy_str SUndefined = False"
| "truthy_str SNull = False"

definition str_or :: "jsstr \<Rightarrow> jsstr \<Rightarrow> jsstr" where
  "str_or a b = (if truthy_str a then a else b)"

text \<open>
  What an expression placed in the page or on the canvas shows. \<open>Fixed n x\<close> stands for
  the string \<open>x.toFixed(n)\<close> of a number \<open>x\<close> (its digits are not expanded),
  \<open>ShownNaN\<close> for the string \<open>"NaN"\<close> and \<open>Nothing\<close> for \<open>undefined\<close>.
\<close>

datatype shown = Nothing | Fixed nat real | ShownNaN | Text string

text \<open>\<open>v?.toFixed(n)\<close>: optional chaining stops at \<open>undefined\<close> and \<open>null\<close>.\<close>

fun opt_toFixed :: "nat \<Rightarrow> jsnum \<Rightarrow> shown" where
  "opt_toFixed n Undefined = Nothing"
| "opt_toFixed n Null = Nothing"
| "opt_toFixed n (Num x) = Fixed n x"
| "opt_toFixed n NaN = ShownNaN"

text \<open>\<open>s || 'N/A'\<close> on a string or \<open>undefined\<close>.\<close>

fun shown_or :: "shown \<Rightarrow> string \<Rightarrow> shown" where
  "shown_or Nothing d = Text d"
| "shown_or (Text s) d = (if s = [] then Text d else Text s)"
| "shown_or (Fixed n x) d = Fixed n x"
| "shown_or ShownNaN d = ShownNaN"

section \<open>The response of \<open>/getUserMeteoriteById\<close> and the stored impact data\<close>

record AtmosphericImpact =
  f_atm :: jsnum
  f_frag :: jsnum
  f_total :: jsnum
  broke :: "bool option"
  breakup_altitude_m :: jsnum
  final_velocity_ms :: jsnum
  energy_lost_percent :: jsnum
  crater_diameter_m :: jsnum
  E_after_J :: jsnum

record Calculations =
  diameter_m :: jsnum
  mass_kg :: jsnum
  velocity_ms :: jsnum
  kinetic_energy_initial_megatons_tnt :: jsnum

text \<open>
  \<open>response.data\<close>; a missing \<open>atmospheric_impact\<close> or \<open>calculations\<close> member is
  \<open>None\<close>. \<open>impactData\<close> is the same pair together with the meteorite's name.
\<close>

record ResponseData =
  atmospheric_impact :: "AtmosphericImpact option"
  calculations :: "Calculations option"

record ImpactData = ResponseData +
  name :: "string option"

text \<open>\<open>obj?.field\<close> for a numeric member of an object that may be missing.\<close>

fun opt_get :: "('a \<Rightarrow> jsnum) \<Rightarrow> 'a option \<Rightarrow> jsnum" where
  "opt_get f None = Undefined"
| "opt_get f (Some a) = f a"

text \<open>The outcome of \<open>await axios.get(url)\<close>: it throws, or it yields \<open>response.data\<close>.\<close>

datatype fetch_result = FetchFailed | FetchOk "ResponseData option"

section \<open>Effects of the handlers of \<open>FormTesting\<close>\<close>

record MeteroidData =
  radiusMeteroid :: jsnum
  velocity :: jsnum
  angle :: jsnum
  material :: jsstr

text \<open>The calls a handler makes, in the order it makes them.\<close>

datatype effect =
    ToastSuccess string
  | ToastError string
  | ToastInfo string
  | ToastWarning string
  | SetImpactData ImpactData
  | SetCraterRadius jsnum
  | SetIsSimulating bool
  | FormSetNumber string jsnum
  | FormSetString string jsstr
  | UpdateMeteroidData MeteroidData

text \<open>
  \<open>onSubmitSimulate\<close>. \<open>selectedSavedId\<close> and \<open>selectedSavedName\<close> are the
  component's state (\<open>string | null\<close>); \<open>axios_get\<close> is the server seen from the client.
\<close>

definition onSubmitSimulate ::
  "(string \<Rightarrow> fetch_result) \<Rightarrow> string option \<Rightarrow> string option \<Rightarrow> effect list" where
  "onSubmitSimulate axios_get selectedSavedId selectedSavedName =
     (case selectedSavedId of
        None \<Rightarrow> [ToastError ''Please select a meteorite first'']
      | Some sid \<Rightarrow>
          if sid = [] then [ToastError ''Please select a meteorite first'']
          else ToastInfo ''Calculating impact area...'' #
            (case axios_get (''/getUserMeteoriteById/'' @ sid) of
               FetchFailed \<Rightarrow> [ToastError ''Error calculating impact area'']
             | FetchOk data \<Rightarrow>
                 (let atmosphericImpact =
                        (case data of None \<Rightarrow> None | Some d \<Rightarrow> atmospheric_impact d);
                      calcs = (case data of None \<Rightarrow> None | Some d \<Rightarrow> calculations d);
                      craterDiameter = opt_get crater_diameter_m atmosphericImpact
                  in SetImpactData \<lparr>atmospheric_impact = atmosphericImpact,
                                    calculations = calcs, name = selectedSavedName\<rparr> #
                     (if truthy craterDiameter
                      then [SetCraterRadius (js_div craterDiameter 2),
                            ToastSuccess ''Impact area calculated!'']
                      else [ToastWarning ''Crater data not available for this meteorite'']) @
                     [SetIsSimulating True])))"

text \<open>
  The part of the \<open>MeteroidContext\<close> state the handler writes: \<open>isSimulating\<close> and
  \<open>craterRadius\<close> (\<open>number | null\<close>). Every other call leaves it as it is.
\<close>

record context_state =
  isSimulating :: bool
  craterRadius :: jsnum

fun context_step :: "context_state \<Rightarrow> effect \<Rightarrow> context_state" where
  "context_step c (SetCraterRadius r) = c\<lparr>craterRadius := r\<rparr>"
| "context_step c (SetIsSimulating b) = c\<lparr>isSimulating := b\<rparr>"
| "context_step c (ToastSuccess m) = c"
| "context_step c (ToastError m) = c"
| "context_step c (ToastInfo m) = c"
| "context_step c (ToastWarning m) = c"
| "context_step c (SetImpactData d) = c"
| "context_step c (FormSetNumber f v) = c"
| "context_step c (FormSetString f v) = c"
| "context_step c (UpdateMeteroidData d) = c"

definition run_context :: "context_state \<Rightarrow> effect list \<Rightarrow> context_state" where
  "run_context c es = foldl context_step c es"

text \<open>The arguments of the calls of \<open>setCraterRadius\<close> and of \<open>setIsSimulating\<close>.\<close>

fun crater_radius_calls :: "effect list \<Rightarrow> jsnum list" where
  "crater_radius_calls [] = []"
| "crater_radius_calls (SetCraterRadius r # es) = r # crater_radius_calls es"
| "crater_radius_calls (e # es) = crater_radius_calls es"

fun is_simulating_calls :: "effect list \<Rightarrow> bool list" where
  "is_simulating_calls [] = []"
| "is_simulating_calls (SetIsSimulating b # es) = b # is_simulating_calls es"
| "is_simulating_calls (e # es) = is_simulating_calls es"

text \<open>The crater diameter the handler reads from a response.\<close>

definition response_crater_diameter :: "ResponseData option \<Rightarrow> jsnum" where
  "response_crater_diameter data =
     opt_get crater_diameter_m (case data of None \<Rightarrow> None | Some d \<Rightarrow> atmospheric_impact d)"

section \<open>What the results panel and the share card show\<close>

text \<open>The expressions of the results panel (the JSX of \<open>FormTesting\<close>).\<close>

definition panel_craterDiameter :: "ImpactData \<Rightarrow> shown" where
  "panel_craterDiameter impactData =
     opt_toFixed 0 (opt_get crater_diameter_m (atmospheric_impact impactData))"

definition panel_craterRadius :: "ImpactData \<Rightarrow> shown" where
  "panel_craterRadius impactData =
     opt_toFixed 0 (js_div (opt_get crater_diameter_m (atmospheric_impact impactData)) 2)"

definition panel_impactEnergy :: "ImpactData \<Rightarrow> shown" where
  "panel_impactEnergy impactData =
     opt_toFixed 2 (js_div (opt_get E_after_J (atmospheric_impact impactData)) (4.184 * 10 ^ 15))"

definition panel_initialEnergy :: "ImpactData \<Rightarrow> shown" where
  "panel_initialEnergy impactData =
     opt_toFixed 2 (opt_get kinetic_energy_initial_megatons_tnt (calculations impactData))"

text \<open>The constants of \<open>generateProfessionalImage\<close> with the same content.\<close>

definition card_energy :: "ImpactData \<Rightarrow> shown" where
  "card_energy impactData =
     shown_or (opt_toFixed 2 (opt_get kinetic_energy_initial_megatons_tnt (calculations impactData)))
       ''N/A''"

definition card_craterDiameter :: "ImpactData \<Rightarrow> shown" where
  "card_craterDiameter impactData =
     shown_or (opt_toFixed 0 (opt_get crater_diameter_m (atmospheric_impact impactData))) ''N/A''"

definition card_craterRadius :: "ImpactData \<Rightarrow> shown" where
  "card_craterRadius impactData =
     (if truthy (opt_get crater_diameter_m (atmospheric_impact impactData))
      then opt_toFixed 0 (js_div (opt_get crater_diameter_m (atmospheric_impact impactData)) 2)
      else Text ''N/A'')"

definition card_impactEnergy :: "ImpactData \<Rightarrow> shown" where
  "card_impactEnergy impactData =
     shown_or
       (opt_toFixed 2 (js_div (opt_get E_after_J (atmospheric_impact impactData)) (4.184 * 10 ^ 15)))
       ''N/A''"

section \<open>Loading a saved meteorite\<close>

text \<open>
  \<open>MeteoriteRecord\<close>: the members \<open>loadMeteoriteData\<close> reads. All but \<open>name\<close> are
  optional in the type; the records come from the JSON of \<open>/getAllUserMeteorites\<close>.
\<close>

record MeteoriteRecord = MeteroidData +
  name :: string

definition loadMeteoriteData :: "MeteoriteRecord \<Rightarrow> effect list" where
  "loadMeteoriteData Meteorite =
     (if truthy (radiusMeteroid Meteorite)
      then [FormSetNumber ''radiusMeteroid'' (radiusMeteroid Meteorite)] else []) @
     (if truthy (velocity Meteorite)
      then [FormSetNumber ''velocity'' (velocity Meteorite)] else []) @
     (if truthy (angle Meteorite)
      then [FormSetNumber ''angle'' (angle Meteorite)] else []) @
     (if truthy_str (material Meteorite)
      then [FormSetString ''material'' (material Meteorite)] else []) @
     [UpdateMeteroidData
        \<lparr>radiusMeteroid = js_or (radiusMeteroid Meteorite) (Num 0),
         velocity = js_or (velocity Meteorite) (Num 0),
         angle = js_or (angle Meteorite) (Num 0),
         material = str_or (material Meteorite) (Str ''rock'')\<rparr>,
      ToastSuccess (''Meteorite loaded: '' @ MeteoriteRecord.name Meteorite)]"

text \<open>The records passed to \<open>updateMeteroidData\<close> and the calls of \<open>form.setValue\<close>.\<close>

fun meteroid_updates :: "effect list \<Rightarrow> MeteroidData list" where
  "meteroid_updates [] = []"
| "meteroid_updates (UpdateMeteroidData d # es) = d # meteroid_updates es"
| "meteroid_updates (e # es) = meteroid_updates es"

fun form_number_sets :: "effect list \<Rightarrow> (string \<times> jsnum) list" where
  "form_number_sets [] = []"
| "form_number_sets (FormSetNumber f v # es) = (f, v) # form_number_sets es"
| "form_number_sets (e # es) = form_number_sets es"

fun form_string_sets :: "effect list \<Rightarrow> (string \<times> jsstr) list" where
  "form_string_sets [] = []"
| "form_string_sets (FormSetString f v # es) = (f, v) # form_string_sets es"
| "form_string_sets (e # es) = form_string_sets es"

text \<open>A member that is neither \<open>undefined\<close> nor \<open>null\<close>.\<close>

fun defined_num :: "jsnum \<Rightarrow> bool" where
  "defined_num Undefined = False"
| "defined_num Null = False"
| "defined_num (Num x) = True"
| "defined_num NaN = True"

fun defined_str :: "jsstr \<Rightarrow> bool" where
  "defined_str SUndefined = False"
| "defined_str SNull = False"
| "defined_str (Str s) = True"

definition defined_update :: "MeteroidData \<Rightarrow> bool" where
  "defined_update u =
     (defined_num (radiusMeteroid u) \<and> defined_num (velocity u) \<and> defined_num (angle u)
      \<and> defined_str (material u))"

section \<open>The material selector of \<open>FormMeteroid\<close>\<close>

record MeteroidFormData = MeteroidData +
  namemeteroid :: jsstr

definition defaultValues :: MeteroidFormData where
  "defaultValues =
     \<lparr>radiusMeteroid = Undefined, velocity = Undefined, angle = Undefined,
      material = SUndefined, namemeteroid = SUndefined\<rparr>"

text \<open>The three \<open>SelectItem\<close>s of the material \<open>Select\<close> and their \<open>value\<close>s.\<close>

datatype material_item = ItemRock | ItemIron | ItemNickel

fun item_value :: "material_item \<Rightarrow> string" where
  "item_value ItemRock = ''rock''"
| "item_value ItemIron = ''iron''"
| "item_value ItemNickel = ''nickel''"

text \<open>
  What the user can do to the form: type in an input or pick an item. For the three numeric
  inputs the event carries the value handed to \<open>field.onChange\<close>, that is
  \<open>value ? parseFloat(value) : undefined\<close>.
\<close>

datatype form_event =
    NameInput string
  | RadiusInput jsnum
  | MaterialSelect material_item
  | VelocityInput jsnum
  | AngleInput jsnum

fun form_step :: "MeteroidFormData \<Rightarrow> form_event \<Rightarrow> MeteroidFormData" where
  "form_step f (NameInput s) = f\<lparr>namemeteroid := Str s\<rparr>"
| "form_step f (RadiusInput v) = f\<lparr>radiusMeteroid := v\<rparr>"
| "form_step f (MaterialSelect i) = f\<lparr>material := Str (item_value i)\<rparr>"
| "form_step f (VelocityInput v) = f\<lparr>velocity := v\<rparr>"
| "form_step f (AngleInput v) = f\<lparr>angle := v\<rparr>"

definition run_form :: "form_event list \<Rightarrow> MeteroidFormData" where
  "run_form evs = foldl form_step defaultValues evs"

text \<open>
  \<open>form.handleSubmit(onSubmitSave)\<close>: the values are posted to \<open>/meteorites/store\<close> when
  the resolver accepts them. \<open>meteroidSchema\<close> is imported from \<open>lib/meteroidSchema\<close>,
  which is not among the sources, and is a parameter here.
\<close>

definition submitSave :: "(MeteroidFormData \<Rightarrow> bool) \<Rightarrow> MeteroidFormData \<Rightarrow> MeteroidFormData option" where
  "submitSave meteroidSchema values = (if meteroidSchema values then Some values else None)"

definition material_enum :: "jsstr set" where
  "material_enum = {Str ''rock'', Str ''iron'', Str ''nickel''}"

section \<open>The engine behind the response\<close>

text \<open>
  Modelled from the spec: \<open>toTntEquivalent\<close> of the ImpactEnergyCalculator (section 4.4:
  "divides by the TNT-equivalent constant (4.184\<times>10^15 J/MT)"). The engine runs on the
  server and is not among the sources.
\<close>

definition toTntEquivalent :: "real \<Rightarrow> real" where
  "toTntEquivalent energy_j = energy_j / (4.184 * 10 ^ 15)"

text \<open>
  Modelled from the spec: the members of the \<open>calculateImpact\<close> response that carry the two
  energies (sections 4.4 and 6): \<open>calculations.kinetic_energy_initial_megatons_tnt\<close> is the
  TNT equivalent of the initial kinetic energy, \<open>atmospheric_impact.E_after_J\<close> is the
  energy delivered to the ground in joules.
\<close>

definition response_energy_members ::
  "real \<Rightarrow> real \<Rightarrow> Calculations \<Rightarrow> AtmosphericImpact \<Rightarrow> ResponseData" where
  "response_energy_members kinetic_energy_initial_j e_after_j cs ai =
     \<lparr>atmospheric_impact = Some (ai\<lparr>E_after_J := Num e_after_j\<rparr>),
      calculations = Some (cs\<lparr>kinetic_energy_initial_megatons_tnt :=
                                 Num (toTntEquivalent kinetic_energy_initial_j)\<rparr>)\<rparr>"

text \<open>
  Modelled from the spec: the core relation of the DeflectionStrategyEngine (section 4.6),
  \<open>delta_v = (m_impactor \<sqdot> v_impactor \<sqdot> \<beta>) / M_object\<close>, for the discrete-impulse
  strategies.
\<close>

definition delta_v :: "real \<Rightarrow> real \<Rightarrow> real \<Rightarrow> real \<Rightarrow> real" where
  "delta_v m_impactor v_impactor beta M_object = (m_impactor * v_impactor * beta) / M_object"

section \<open>An example response\<close>

text \<open>
  A response for the saved meteorite with id 7, with the crater diameter left open, and a
  server that knows only this meteorite. They provide concrete values for the results below.
\<close>

definition example_impact :: "jsnum \<Rightarrow> AtmosphericImpact" where
  "example_impact crater =
     \<lparr>f_atm = Num 0.4, f_frag = Num 0.5, f_total = Num 0.2, broke = Some True,
      breakup_altitude_m = Num 25000, final_velocity_ms = Num 12000,
      energy_lost_percent = Num 80, crater_diameter_m = crater,
      E_after_J = Num 8368000000000000\<rparr>"

definition example_calculations :: Calculations where
  "example_calculations =
     \<lparr>diameter_m = Num 20, mass_kg = Num 12566000, velocity_ms = Num 19000,
      kinetic_energy_initial_megatons_tnt = Num 0.54\<rparr>"

definition example_server :: "jsnum \<Rightarrow> string \<Rightarrow> fetch_result" where
  "example_server crater url =
     (if url = ''/getUserMeteoriteById/7''
      then FetchOk (Some \<lparr>atmospheric_impact = Some (example_impact crater),
                           calculations = Some example_calculations\<rparr>)
      else FetchFailed)"

definition example_meteorite :: MeteoriteRecord where
  "example_meteorite =
     \<lparr>radiusMeteroid = Num 10, velocity = Num 0, angle = Undefined,
      material = SNull, MeteoriteRecord.name = ''Midas''\<rparr>"

section \<open>Results\<close>

subsection \<open>Auxiliary facts\<close>

lemma truthy_iff: "truthy v = (v \<notin> {Undefined, Null, Num 0, NaN})"
  by (cases v) simp_all

lemma truthy_str_iff: "truthy_str v = (v \<notin> {SUndefined, SNull, Str []})"
  by (cases v) simp_all

lemma defined_js_or: "defined_num (js_or v (Num 0))"
  by (cases v) (simp_all add: js_or_def)

lemma defined_str_or: "defined_str (str_or v (Str s))"
  by (cases v) (simp_all add: str_or_def)

text \<open>The calls of \<open>onSubmitSimulate\<close> when a meteorite is selected and the fetch succeeds.\<close>

lemma onSubmitSimulate_ok:
  assumes "sid \<noteq> []" and "axios_get (''/getUserMeteoriteById/'' @ sid) = FetchOk data"
  shows "onSubmitSimulate axios_get (Some sid) nm =
     ToastInfo ''Calculating impact area...'' #
     SetImpactData \<lparr>atmospheric_impact = (case data of None \<Rightarrow> None | Some d \<Rightarrow> atmospheric_impact d),
                    calculations = (case data of None \<Rightarrow> None | Some d \<Rightarrow> calculations d),
                    ImpactData.name = nm\<rparr> #
     (if truthy (response_crater_diameter data)
      then [SetCraterRadius (js_div (response_crater_diameter data) 2),
            ToastSuccess ''Impact area calculated!'']
      else [ToastWarning ''Crater data not available for this meteorite'']) @
     [SetIsSimulating True]"
  using assms by (simp add: onSubmitSimulate_def response_crater_diameter_def Let_def)

text \<open>Editing \<open>FormMeteroid\<close> keeps the material undefined or one of the three items.\<close>

lemma material_form_step:
  "material f \<in> insert SUndefined material_enum \<Longrightarrow>
   material (form_step f ev) \<in> insert SUndefined material_enum"
proof (cases ev)
  case (MaterialSelect i)
  then show ?thesis by (cases i) (simp_all add: material_enum_def)
qed simp_all

lemma material_foldl_form_step:
  "material f \<in> insert SUndefined material_enum \<Longrightarrow>
   material (foldl form_step f evs) \<in> insert SUndefined material_enum"
proof (induction evs arbitrary: f)
  case Nil
  then show ?case by simp
next
  case (Cons ev evs)
  from Cons.prems have "material (form_step f ev) \<in> insert SUndefined material_enum"
    by (rule material_form_step)
  then show ?case using Cons.IH by simp
qed

text \<open>Once an item was selected, the material stays one of the three values.\<close>

lemma material_selected_foldl:
  "material f \<in> material_enum \<or> (\<exists>i. MaterialSelect i \<in> set evs) \<Longrightarrow>
   material (foldl form_step f evs) \<in> material_enum"
proof (induction evs arbitrary: f)
  case Nil
  then show ?case by simp
next
  case (Cons ev evs)
  show ?case
  proof (cases ev)
    case (MaterialSelect i)
    have "material (form_step f ev) \<in> material_enum"
      unfolding MaterialSelect by (cases i) (simp_all add: material_enum_def)
    then show ?thesis using Cons.IH by simp
  next
    case (NameInput s)
    then show ?thesis using Cons.prems Cons.IH [of "form_step f ev"] by auto
  next
    case (RadiusInput v)
    then show ?thesis using Cons.prems Cons.IH [of "form_step f ev"] by auto
  next
    case (VelocityInput v)
    then show ?thesis using Cons.prems Cons.IH [of "form_step f ev"] by auto
  next
    case (AngleInput v)
    then show ?thesis using Cons.prems Cons.IH [of "form_step f ev"] by auto
  qed
qed

text \<open>
  A saved record whose material is one of the three values, or absent, is loaded with a
  material of the enum.
\<close>

lemma loaded_material_in_enum:
  "material M \<in> insert SUndefined material_enum \<Longrightarrow>
   map material (meteroid_updates (loadMeteoriteData M)) \<in> (\<lambda>m. [m]) ` material_enum"
  by (cases "material M") (auto simp add: loadMeteoriteData_def str_or_def material_enum_def)

subsection \<open>Crater radius\<close>

text \<open>
  C2. Wherever the client derives a crater radius from a numeric \<open>crater_diameter_m\<close>, it
  is the diameter divided by 2: the radius \<open>onSubmitSimulate\<close> hands to the map through
  \<open>setCraterRadius\<close> (set for a non-zero diameter), the radius of the results panel, and the
  radius of the share card (\<open>N/A\<close> for a zero diameter).
\<close>

theorem crater_radius_is_half_diameter:
  assumes "sid \<noteq> []" and "axios_get (''/getUserMeteoriteById/'' @ sid) = FetchOk data"
    and "response_crater_diameter data = Num d"
    and "opt_get crater_diameter_m (atmospheric_impact impactData) = Num d"
  shows "crater_radius_calls (onSubmitSimulate axios_get (Some sid) nm) =
           (if d \<noteq> 0 then [Num (d / 2)] else [])
       \<and> panel_craterRadius impactData = Fixed 0 (d / 2)
       \<and> card_craterRadius impactData = (if d \<noteq> 0 then Fixed 0 (d / 2) else Text ''N/A'')"
proof -
  note eq = onSubmitSimulate_ok [of sid axios_get data nm, OF assms(1,2)]
  have "crater_radius_calls (onSubmitSimulate axios_get (Some sid) nm) =
           (if d \<noteq> 0 then [Num (d / 2)] else [])"
    unfolding eq by (simp add: assms(3) js_div_def)
  moreover have "panel_craterRadius impactData = Fixed 0 (d / 2)"
    by (simp add: panel_craterRadius_def assms(4) js_div_def)
  moreover have "card_craterRadius impactData = (if d \<noteq> 0 then Fixed 0 (d / 2) else Text ''N/A'')"
    by (simp add: card_craterRadius_def assms(4) js_div_def)
  ultimately show ?thesis by blast
qed

theorem crater_radius_is_half_diameter_witness:
  "crater_radius_calls (onSubmitSimulate (example_server (Num 300)) (Some ''7'') (Some ''Apophis''))
     = [Num 150]
   \<and> panel_craterRadius \<lparr>atmospheric_impact = Some (example_impact (Num 300)),
        calculations = Some example_calculations, ImpactData.name = Some ''Apophis''\<rparr> = Fixed 0 150
   \<and> card_craterRadius \<lparr>atmospheric_impact = Some (example_impact (Num 300)),
        calculations = Some example_calculations, ImpactData.name = Some ''Apophis''\<rparr> = Fixed 0 150"
  using crater_radius_is_half_diameter [of "''7''" "example_server (Num 300)"
      "Some \<lparr>atmospheric_impact = Some (example_impact (Num 300)),
             calculations = Some example_calculations\<rparr>" 300
      "\<lparr>atmospheric_impact = Some (example_impact (Num 300)),
        calculations = Some example_calculations, ImpactData.name = Some ''Apophis''\<rparr>"
      "Some ''Apophis''"]
  by (simp add: example_server_def example_impact_def response_crater_diameter_def)

subsection \<open>TNT equivalent\<close>

text \<open>
  C3. The TNT equivalent of an energy in joules is the energy divided by 4.184e15. The
  engine applies it to the initial kinetic energy before sending
  \<open>kinetic_energy_initial_megatons_tnt\<close>, which the client shows as received; the client
  applies the same division to \<open>E_after_J\<close> for the impact energy of the panel and of the
  share card.
\<close>

theorem tnt_equivalent_conversion:
  "toTntEquivalent e = e / 4184000000000000
   \<and> (let r = response_energy_members ke e cs ai;
           impactData = \<lparr>atmospheric_impact = atmospheric_impact r,
                         calculations = calculations r, ImpactData.name = nm\<rparr>
       in panel_initialEnergy impactData = Fixed 2 (toTntEquivalent ke)
        \<and> card_energy impactData = Fixed 2 (toTntEquivalent ke)
        \<and> panel_impactEnergy impactData = Fixed 2 (toTntEquivalent e)
        \<and> card_impactEnergy impactData = Fixed 2 (toTntEquivalent e))"
  by (simp add: toTntEquivalent_def response_energy_members_def Let_def
      panel_initialEnergy_def card_energy_def panel_impactEnergy_def card_impactEnergy_def js_div_def)

theorem tnt_equivalent_conversion_witness:
  "toTntEquivalent 8368000000000000 = 2
   \<and> panel_impactEnergy \<lparr>atmospheric_impact = Some (example_impact Undefined),
        calculations = Some (example_calculations\<lparr>kinetic_energy_initial_megatons_tnt := Num 3\<rparr>),
        ImpactData.name = None\<rparr> = Fixed 2 2
   \<and> card_energy \<lparr>atmospheric_impact = Some (example_impact Undefined),
        calculations = Some (example_calculations\<lparr>kinetic_energy_initial_megatons_tnt := Num 3\<rparr>),
        ImpactData.name = None\<rparr> = Fixed 2 3"
  using tnt_equivalent_conversion [of 8368000000000000 12552000000000000
      example_calculations "example_impact Undefined" None]
  by (simp add: toTntEquivalent_def response_energy_members_def example_impact_def Let_def)

subsection \<open>No crater\<close>

text \<open>
  C4. A response without \<open>crater_diameter_m\<close> (or with a null one) is the no-crater
  outcome, and \<open>onSubmitSimulate\<close> takes it as a regular one: it stores the impact data,
  warns that crater data is not available, raises no error toast and starts the simulation.
  The share card shows \<open>N/A\<close> for the diameter and the radius. The results panel, which
  renders the stored data, does not handle it: the crater diameter is empty and the crater
  radius is \<open>NaN\<close> for an absent diameter and \<open>0\<close> for a null one, because the division
  by 2 comes before the optional chaining (line 870), where the share card tests the
  diameter first (lines 409-411).
\<close>

theorem panel_crater_radius_unguarded:
  assumes "sid \<noteq> []" and "cd = Undefined \<or> cd = Null"
    and "axios_get (''/getUserMeteoriteById/'' @ sid) =
           FetchOk (Some \<lparr>atmospheric_impact = Some (ai\<lparr>crater_diameter_m := cd\<rparr>),
                           calculations = cs\<rparr>)"
  shows "onSubmitSimulate axios_get (Some sid) nm =
           [ToastInfo ''Calculating impact area...'',
            SetImpactData \<lparr>atmospheric_impact = Some (ai\<lparr>crater_diameter_m := cd\<rparr>),
                           calculations = cs, ImpactData.name = nm\<rparr>,
            ToastWarning ''Crater data not available for this meteorite'',
            SetIsSimulating True]
       \<and> card_craterDiameter \<lparr>atmospheric_impact = Some (ai\<lparr>crater_diameter_m := cd\<rparr>),
                               calculations = cs, ImpactData.name = nm\<rparr> = Text ''N/A''
       \<and> card_craterRadius \<lparr>atmospheric_impact = Some (ai\<lparr>crater_diameter_m := cd\<rparr>),
                               calculations = cs, ImpactData.name = nm\<rparr> = Text ''N/A''
       \<and> panel_craterDiameter \<lparr>atmospheric_impact = Some (ai\<lparr>crater_diameter_m := cd\<rparr>),
                               calculations = cs, ImpactData.name = nm\<rparr> = Nothing
       \<and> panel_craterRadius \<lparr>atmospheric_impact = Some (ai\<lparr>crater_diameter_m := cd\<rparr>),
                               calculations = cs, ImpactData.name = nm\<rparr> =
           (if cd = Undefined then ShownNaN else Fixed 0 0)"
proof -
  note eq = onSubmitSimulate_ok [of sid axios_get _ nm, OF assms(1) assms(3)]
  have "onSubmitSimulate axios_get (Some sid) nm =
           [ToastInfo ''Calculating impact area...'',
            SetImpactData \<lparr>atmospheric_impact = Some (ai\<lparr>crater_diameter_m := cd\<rparr>),
                           calculations = cs, ImpactData.name = nm\<rparr>,
            ToastWarning ''Crater data not available for this meteorite'',
            SetIsSimulating True]"
    unfolding eq using assms(2) by (auto simp add: response_crater_diameter_def)
  moreover have "card_craterDiameter \<lparr>atmospheric_impact = Some (ai\<lparr>crater_diameter_m := cd\<rparr>),
                               calculations = cs, ImpactData.name = nm\<rparr> = Text ''N/A''"
    using assms(2) by (auto simp add: card_craterDiameter_def)
  moreover have "card_craterRadius \<lparr>atmospheric_impact = Some (ai\<lparr>crater_diameter_m := cd\<rparr>),
                               calculations = cs, ImpactData.name = nm\<rparr> = Text ''N/A''"
    using assms(2) by (auto simp add: card_craterRadius_def)
  moreover have "panel_craterDiameter \<lparr>atmospheric_impact = Some (ai\<lparr>crater_diameter_m := cd\<rparr>),
                               calculations = cs, ImpactData.name = nm\<rparr> = Nothing"
    using assms(2) by (auto simp add: panel_craterDiameter_def)
  moreover have "panel_craterRadius \<lparr>atmospheric_impact = Some (ai\<lparr>crater_diameter_m := cd\<rparr>),
                               calculations = cs, ImpactData.name = nm\<rparr> =
           (if cd = Undefined then ShownNaN else Fixed 0 0)"
    using assms(2) by (auto simp add: panel_craterRadius_def js_div_def)
  ultimately show ?thesis by simp
qed

theorem panel_crater_radius_unguarded_witness:
  "onSubmitSimulate (example_server Undefined) (Some ''7'') (Some ''Apophis'') =
       [ToastInfo ''Calculating impact area...'',
        SetImpactData \<lparr>atmospheric_impact = Some (example_impact Undefined),
                       calculations = Some example_calculations, ImpactData.name = Some ''Apophis''\<rparr>,
        ToastWarning ''Crater data not available for this meteorite'',
        SetIsSimulating True]
   \<and> panel_craterRadius \<lparr>atmospheric_impact = Some (example_impact Undefined),
        calculations = Some example_calculations, ImpactData.name = Some ''Apophis''\<rparr> = ShownNaN
   \<and> card_craterRadius \<lparr>atmospheric_impact = Some (example_impact Undefined),
        calculations = Some example_calculations, ImpactData.name = Some ''Apophis''\<rparr> = Text ''N/A''"
  using panel_crater_radius_unguarded [of "''7''" Undefined "example_server Undefined"
      "example_impact Undefined" "Some example_calculations" "Some ''Apophis''"]
  by (simp add: example_server_def example_impact_def)

subsection \<open>Deflection\<close>

text \<open>
  C7. With the impactor's mass, speed and \<open>\<beta>\<close> fixed, \<open>delta_v\<close> is
  \<open>(m_impactor \<sqdot> v_impactor \<sqdot> \<beta>) / M_object\<close> and so inversely proportional to the mass
  of the object: doubling the mass halves \<open>delta_v\<close>, and scaling it by \<open>k\<close> divides
  \<open>delta_v\<close> by \<open>k\<close>.
\<close>

theorem delta_v_inverse_in_mass:
  assumes "0 < M_object" and "0 < k"
  shows "delta_v m_impactor v_impactor beta M_object = m_impactor * v_impactor * beta / M_object
       \<and> delta_v m_impactor v_impactor beta (2 * M_object) =
           delta_v m_impactor v_impactor beta M_object / 2
       \<and> delta_v m_impactor v_impactor beta (k * M_object) =
           delta_v m_impactor v_impactor beta M_object / k
       \<and> delta_v m_impactor v_impactor beta M_object * M_object = m_impactor * v_impactor * beta"
  using assms by (simp add: delta_v_def)

theorem delta_v_inverse_in_mass_witness:
  "delta_v 500 6000 3 1000000 = 9 \<and> delta_v 500 6000 3 (2 * 1000000) = 9 / 2
   \<and> delta_v 500 6000 3 (4 * 1000000) = 9 / 4"
  using delta_v_inverse_in_mass [of 1000000 4 500 6000 3]
  by (simp add: delta_v_def)

subsection \<open>Starting the simulation\<close>

text \<open>
  C8. After a successful fetch with a meteorite selected, \<open>setCraterRadius\<close> is called
  exactly when the fetched \<open>crater_diameter_m\<close> is truthy (then once, with half of it), so
  for a diameter that is 0, null or absent the context's \<open>craterRadius\<close> keeps its value
  (null after a reset); \<open>setIsSimulating(true)\<close> is called in both cases.
\<close>

theorem onSubmitSimulate_crater_radius_iff_truthy:
  assumes "sid \<noteq> []" and "axios_get (''/getUserMeteoriteById/'' @ sid) = FetchOk data"
  shows "crater_radius_calls (onSubmitSimulate axios_get (Some sid) nm) =
           (if truthy (response_crater_diameter data)
            then [js_div (response_crater_diameter data) 2] else [])
       \<and> is_simulating_calls (onSubmitSimulate axios_get (Some sid) nm) = [True]
       \<and> craterRadius (run_context c (onSubmitSimulate axios_get (Some sid) nm)) =
           (if truthy (response_crater_diameter data)
            then js_div (response_crater_diameter data) 2 else craterRadius c)
       \<and> isSimulating (run_context c (onSubmitSimulate axios_get (Some sid) nm)) = True
       \<and> (truthy (response_crater_diameter data) =
            (response_crater_diameter data \<notin> {Undefined, Null, Num 0, NaN}))"
proof -
  note eq = onSubmitSimulate_ok [of sid axios_get data nm, OF assms]
  show ?thesis
    unfolding eq by (simp add: run_context_def truthy_iff)
qed

theorem onSubmitSimulate_crater_radius_iff_truthy_witness:
  "crater_radius_calls (onSubmitSimulate (example_server (Num 0)) (Some ''7'') (Some ''Apophis'')) = []
   \<and> is_simulating_calls (onSubmitSimulate (example_server (Num 0)) (Some ''7'') (Some ''Apophis'')) = [True]
   \<and> craterRadius (run_context \<lparr>isSimulating = False, craterRadius = Null\<rparr>
        (onSubmitSimulate (example_server (Num 0)) (Some ''7'') (Some ''Apophis''))) = Null
   \<and> isSimulating (run_context \<lparr>isSimulating = False, craterRadius = Null\<rparr>
        (onSubmitSimulate (example_server (Num 0)) (Some ''7'') (Some ''Apophis''))) = True"
  using onSubmitSimulate_crater_radius_iff_truthy [of "''7''" "example_server (Num 0)"
      "Some \<lparr>atmospheric_impact = Some (example_impact (Num 0)),
             calculations = Some example_calculations\<rparr>" "Some ''Apophis''"
      "\<lparr>isSimulating = False, craterRadius = Null\<rparr>"]
  by (simp add: example_server_def example_impact_def response_crater_diameter_def)

subsection \<open>Material\<close>

text \<open>
  C9. Every value the material selector of \<open>FormMeteroid\<close> submits is one of
  \<open>'rock'\<close>, \<open>'iron'\<close>, \<open>'nickel'\<close>: once an item was selected the material of the
  form, and of the data it posts, is one of the three. \<open>FormTesting\<close> has no selector of
  its own; it loads saved records, and a record saved from the form is passed on by
  \<open>loadMeteoriteData\<close> with a material of the enum.
\<close>

theorem material_selector_closed_enum:
  "Str (item_value i) \<in> material_enum
   \<and> material (form_step f (MaterialSelect i)) = Str (item_value i)
   \<and> ((\<exists>j. MaterialSelect j \<in> set evs) \<longrightarrow> material (run_form evs) \<in> material_enum)
   \<and> ((\<exists>j. MaterialSelect j \<in> set evs) \<and> submitSave meteroidSchema (run_form evs) = Some d \<longrightarrow>
        material d \<in> material_enum)
   \<and> (submitSave meteroidSchema (run_form evs) = Some d \<and> material M = material d \<longrightarrow>
        map material (meteroid_updates (loadMeteoriteData M)) \<in> (\<lambda>m. [m]) ` material_enum)"
proof -
  have a: "Str (item_value i) \<in> material_enum"
    by (cases i) (simp_all add: material_enum_def)
  have b: "material (form_step f (MaterialSelect i)) = Str (item_value i)"
    by simp
  have c: "(\<exists>j. MaterialSelect j \<in> set evs) \<longrightarrow> material (run_form evs) \<in> material_enum"
    unfolding run_form_def using material_selected_foldl [of defaultValues evs] by blast
  have d: "(\<exists>j. MaterialSelect j \<in> set evs) \<and> submitSave meteroidSchema (run_form evs) = Some d \<longrightarrow>
        material d \<in> material_enum"
    using c by (auto simp add: submitSave_def split: if_splits)
  have "material (run_form evs) \<in> insert SUndefined material_enum"
    unfolding run_form_def
    by (rule material_foldl_form_step) (simp add: defaultValues_def)
  then have e: "submitSave meteroidSchema (run_form evs) = Some d \<and> material M = material d \<longrightarrow>
        map material (meteroid_updates (loadMeteoriteData M)) \<in> (\<lambda>m. [m]) ` material_enum"
    using loaded_material_in_enum [of M] by (auto simp add: submitSave_def split: if_splits)
  show ?thesis using a b c d e by blast
qed

theorem material_selector_closed_enum_witness:
  "submitSave (\<lambda>f. material f \<noteq> SUndefined) (run_form [RadiusInput (Num 10), MaterialSelect ItemIron])
     = Some \<lparr>radiusMeteroid = Num 10, velocity = Undefined, angle = Undefined,
             material = Str ''iron'', namemeteroid = SUndefined\<rparr>
   \<and> material \<lparr>radiusMeteroid = Num 10, velocity = Undefined, angle = Undefined,
             material = Str ''iron'', namemeteroid = SUndefined\<rparr> \<in> material_enum
   \<and> map material (meteroid_updates (loadMeteoriteData
        \<lparr>radiusMeteroid = Num 10, velocity = Undefined, angle = Undefined,
         material = Str ''iron'', MeteoriteRecord.name = ''Midas''\<rparr>)) = [Str ''iron'']"
  using material_selector_closed_enum [where i = ItemIron and f = defaultValues
      and evs = "[RadiusInput (Num 10), MaterialSelect ItemIron]"
      and meteroidSchema = "\<lambda>f. material f \<noteq> SUndefined"
      and d = "\<lparr>radiusMeteroid = Num 10, velocity = Undefined, angle = Undefined,
             material = Str ''iron'', namemeteroid = SUndefined\<rparr>"
      and M = "\<lparr>radiusMeteroid = Num 10, velocity = Undefined, angle = Undefined,
         material = Str ''iron'', MeteoriteRecord.name = ''Midas''\<rparr>"]
  by (simp add: submitSave_def run_form_def defaultValues_def material_enum_def
      loadMeteoriteData_def str_or_def js_or_def)

subsection \<open>Loading a saved meteorite\<close>

text \<open>
  C10. \<open>loadMeteoriteData\<close> calls \<open>updateMeteroidData\<close> once, with a record all of whose
  members are defined: a falsy radius, velocity or angle (absent, null, 0) becomes 0 and a
  falsy material (absent, null, empty) becomes \<open>'rock'\<close>; truthy values are passed as they
  are. \<open>form.setValue\<close> is called for the truthy members only.
\<close>

theorem loadMeteoriteData_defined_update:
  "meteroid_updates (loadMeteoriteData M) =
     [\<lparr>radiusMeteroid = (if truthy (radiusMeteroid M) then radiusMeteroid M else Num 0),
       velocity = (if truthy (velocity M) then velocity M else Num 0),
       angle = (if truthy (angle M) then angle M else Num 0),
       material = (if truthy_str (material M) then material M else Str ''rock'')\<rparr>]
   \<and> map defined_update (meteroid_updates (loadMeteoriteData M)) = [True]
   \<and> form_number_sets (loadMeteoriteData M) =
       (if truthy (radiusMeteroid M) then [(''radiusMeteroid'', radiusMeteroid M)] else []) @
       (if truthy (velocity M) then [(''velocity'', velocity M)] else []) @
       (if truthy (angle M) then [(''angle'', angle M)] else [])
   \<and> form_string_sets (loadMeteoriteData M) =
       (if truthy_str (material M) then [(''material'', material M)] else [])
   \<and> truthy (radiusMeteroid M) = (radiusMeteroid M \<notin> {Undefined, Null, Num 0, NaN})
   \<and> truthy (velocity M) = (velocity M \<notin> {Undefined, Null, Num 0, NaN})
   \<and> truthy (angle M) = (angle M \<notin> {Undefined, Null, Num 0, NaN})
   \<and> truthy_str (material M) = (material M \<notin> {SUndefined, SNull, Str []})"
proof -
  have u: "meteroid_updates (loadMeteoriteData M) =
     [\<lparr>radiusMeteroid = js_or (radiusMeteroid M) (Num 0),
       velocity = js_or (velocity M) (Num 0),
       angle = js_or (angle M) (Num 0),
       material = str_or (material M) (Str ''rock'')\<rparr>]"
    by (simp add: loadMeteoriteData_def)
  have 1: "meteroid_updates (loadMeteoriteData M) =
     [\<lparr>radiusMeteroid = (if truthy (radiusMeteroid M) then radiusMeteroid M else Num 0),
       velocity = (if truthy (velocity M) then velocity M else Num 0),
       angle = (if truthy (angle M) then angle M else Num 0),
       material = (if truthy_str (material M) then material M else Str ''rock'')\<rparr>]"
    unfolding u by (simp add: js_or_def str_or_def)
  have 2: "map defined_update (meteroid_updates (loadMeteoriteData M)) = [True]"
    unfolding u by (simp add: defined_update_def defined_js_or defined_str_or)
  have 3: "form_number_sets (loadMeteoriteData M) =
       (if truthy (radiusMeteroid M) then [(''radiusMeteroid'', radiusMeteroid M)] else []) @
       (if truthy (velocity M) then [(''velocity'', velocity M)] else []) @
       (if truthy (angle M) then [(''angle'', angle M)] else [])"
    by (simp add: loadMeteoriteData_def)
  have 4: "form_string_sets (loadMeteoriteData M) =
       (if truthy_str (material M) then [(''material'', material M)] else [])"
    by (simp add: loadMeteoriteData_def)
  show ?thesis
    using 1 2 3 4 truthy_iff truthy_str_iff by blast
qed

theorem loadMeteoriteData_defined_update_witness:
  "meteroid_updates (loadMeteoriteData example_meteorite) =
     [\<lparr>radiusMeteroid = Num 10, velocity = Num 0, angle = Num 0, material = Str ''rock''\<rparr>]
   \<and> form_number_sets (loadMeteoriteData example_meteorite) = [(''radiusMeteroid'', Num 10)]
   \<and> form_string_sets (loadMeteoriteData example_meteorite) = []"
  using loadMeteoriteData_defined_update [of example_meteorite]
  by (simp add: example_meteorite_def)

end
